theory Spec2Isabelle
  imports Complex_Main "HOL-Library.Sublist"
begin

section \<open>Text primitives\<close>

text \<open>
  Content strings are Python \<^verbatim>\<open>str\<close> values. They are modelled as \<^typ>\<open>string\<close>, one
  \<^typ>\<open>char\<close> per code point, for the code points below 256. On these,
  \<^verbatim>\<open>str.lower\<close> folds \<^verbatim>\<open>A-Z\<close> and the Latin-1 capitals \<^verbatim>\<open>0xC0-0xDE\<close> (without the
  multiplication sign \<^verbatim>\<open>0xD7\<close>) onto the letter 32 code points above.
\<close>

definition latin1_capitals :: string where
  "latin1_capitals =
       [CHR 0xC0, CHR 0xC1, CHR 0xC2, CHR 0xC3, CHR 0xC4, CHR 0xC5, CHR 0xC6, CHR 0xC7,
        CHR 0xC8, CHR 0xC9, CHR 0xCA, CHR 0xCB, CHR 0xCC, CHR 0xCD, CHR 0xCE, CHR 0xCF,
        CHR 0xD0, CHR 0xD1, CHR 0xD2, CHR 0xD3, CHR 0xD4, CHR 0xD5, CHR 0xD6, CHR 0xD8,
        CHR 0xD9, CHR 0xDA, CHR 0xDB, CHR 0xDC, CHR 0xDD, CHR 0xDE]"

definition latin1_smalls :: string where
  "latin1_smalls =
       [CHR 0xE0, CHR 0xE1, CHR 0xE2, CHR 0xE3, CHR 0xE4, CHR 0xE5, CHR 0xE6, CHR 0xE7,
        CHR 0xE8, CHR 0xE9, CHR 0xEA, CHR 0xEB, CHR 0xEC, CHR 0xED, CHR 0xEE, CHR 0xEF,
        CHR 0xF0, CHR 0xF1, CHR 0xF2, CHR 0xF3, CHR 0xF4, CHR 0xF5, CHR 0xF6, CHR 0xF8,
        CHR 0xF9, CHR 0xFA, CHR 0xFB, CHR 0xFC, CHR 0xFD, CHR 0xFE]"

definition lower_char :: "char \<Rightarrow> char" where
  "lower_char c =
     (case map_of (zip (''ABCDEFGHIJKLMNOPQRSTUVWXYZ'' @ latin1_capitals)
                       (''abcdefghijklmnopqrstuvwxyz'' @ latin1_smalls)) c of
        None \<Rightarrow> c
      | Some d \<Rightarrow> d)"

definition lower :: "string \<Rightarrow> string" where
  "lower s = map lower_char s"

text \<open>\<^verbatim>\<open>w in s\<close> on strings: \<open>w\<close> occurs in \<open>s\<close> as a contiguous substring.\<close>

primrec contains :: "string \<Rightarrow> string \<Rightarrow> bool" where
  "contains w [] = (w = [])"
| "contains w (c # cs) = (prefix w (c # cs) \<or> contains w cs)"

text \<open>\<^verbatim>\<open>s.count(c)\<close> for a single character.\<close>

definition count_char :: "char \<Rightarrow> string \<Rightarrow> nat" where
  "count_char c s = length (filter (\<lambda>x. x = c) s)"

section \<open>Regular expressions of the fast filter\<close>

text \<open>
  The patterns of \<^verbatim>\<open>FastFilterLayer\<close> use literals, alternation, concatenation,
  \<^verbatim>\<open>+\<close>, the classes \<^verbatim>\<open>\w\<close>, \<^verbatim>\<open>\s\<close>, \<^verbatim>\<open>[0-9a-zA-Z]\<close> and the word boundary \<^verbatim>\<open>\b\<close>.
  All of them are compiled with \<^verbatim>\<open>re.IGNORECASE\<close> and without \<^verbatim>\<open>re.ASCII\<close>: a literal
  character matches both of its cases, and \<^verbatim>\<open>\w\<close>, \<^verbatim>\<open>\s\<close> and \<^verbatim>\<open>\b\<close> are the
  Unicode-aware classes, here on the code points below 256.
\<close>

datatype rx =
    Eps
  | Chr char
  | WordCh
  | SpaceCh
  | AlnumCh
  | Bnd
  | Seq rx rx
  | Alt rx rx
  | Plus rx

definition is_alnum :: "char \<Rightarrow> bool" where
  "is_alnum c \<longleftrightarrow>
     c \<in> set ''0123456789abcdefghijklmnopqrstuvwxyzABCDEFGHIJKLMNOPQRSTUVWXYZ''"

text \<open>
  The code points from 128 to 255 that \<^verbatim>\<open>\w\<close> matches: the letters and the numeric
  characters of Latin-1 (\<^verbatim>\<open>str.isalnum\<close>).
\<close>

definition latin1_word_chars :: string where
  "latin1_word_chars =
       [CHR 0xAA, CHR 0xB2, CHR 0xB3, CHR 0xB5, CHR 0xB9, CHR 0xBA, CHR 0xBC, CHR 0xBD,
        CHR 0xBE, CHR 0xC0, CHR 0xC1, CHR 0xC2, CHR 0xC3, CHR 0xC4, CHR 0xC5, CHR 0xC6,
        CHR 0xC7, CHR 0xC8, CHR 0xC9, CHR 0xCA, CHR 0xCB, CHR 0xCC, CHR 0xCD, CHR 0xCE,
        CHR 0xCF, CHR 0xD0, CHR 0xD1, CHR 0xD2, CHR 0xD3, CHR 0xD4, CHR 0xD5, CHR 0xD6,
        CHR 0xD8, CHR 0xD9, CHR 0xDA, CHR 0xDB, CHR 0xDC, CHR 0xDD, CHR 0xDE, CHR 0xDF,
        CHR 0xE0, CHR 0xE1, CHR 0xE2, CHR 0xE3, CHR 0xE4, CHR 0xE5, CHR 0xE6, CHR 0xE7,
        CHR 0xE8, CHR 0xE9, CHR 0xEA, CHR 0xEB, CHR 0xEC, CHR 0xED, CHR 0xEE, CHR 0xEF,
        CHR 0xF0, CHR 0xF1, CHR 0xF2, CHR 0xF3, CHR 0xF4, CHR 0xF5, CHR 0xF6, CHR 0xF8,
        CHR 0xF9, CHR 0xFA, CHR 0xFB, CHR 0xFC, CHR 0xFD, CHR 0xFE, CHR 0xFF]"

definition is_word :: "char \<Rightarrow> bool" where
  "is_word c \<longleftrightarrow> is_alnum c \<or> c = CHR ''_'' \<or> c \<in> set latin1_word_chars"

text \<open>\<^verbatim>\<open>\s\<close>: the code points below 256 for which \<^verbatim>\<open>str.isspace\<close> holds.\<close>

definition is_space :: "char \<Rightarrow> bool" where
  "is_space c \<longleftrightarrow>
     c \<in> set [CHR '' '', CHR 0x09, CHR 0x0A, CHR 0x0B, CHR 0x0C, CHR 0x0D,
                CHR 0x1C, CHR 0x1D, CHR 0x1E, CHR 0x1F, CHR 0x85, CHR 0xA0]"

text \<open>
  A matcher state is the character before the current position (if any) and the rest of
  the text. \<open>rx_step r st\<close> lists the states reachable by matching \<open>r\<close> from \<open>st\<close>.
\<close>

type_synonym mstate = "char option \<times> string"

primrec plus_iter :: "('a \<Rightarrow> 'a list) \<Rightarrow> nat \<Rightarrow> 'a list \<Rightarrow> 'a list" where
  "plus_iter f 0 xs = []"
| "plus_iter f (Suc n) xs =
     (let ys = concat (map f xs) in if ys = [] then [] else ys @ plus_iter f n ys)"

definition one_char :: "(char \<Rightarrow> bool) \<Rightarrow> mstate \<Rightarrow> mstate list" where
  "one_char P st =
     (case snd st of
        [] \<Rightarrow> []
      | x # xs \<Rightarrow> if P x then [(Some x, xs)] else [])"

definition at_boundary :: "mstate \<Rightarrow> bool" where
  "at_boundary st \<longleftrightarrow>
     (case fst st of None \<Rightarrow> False | Some p \<Rightarrow> is_word p)
     \<noteq> (case snd st of [] \<Rightarrow> False | x # xs \<Rightarrow> is_word x)"

primrec rx_step :: "rx \<Rightarrow> mstate \<Rightarrow> mstate list" where
  "rx_step Eps st = [st]"
| "rx_step (Chr c) st = one_char (\<lambda>x. lower_char x = lower_char c) st"
| "rx_step WordCh st = one_char is_word st"
| "rx_step SpaceCh st = one_char is_space st"
| "rx_step AlnumCh st = one_char is_alnum st"
| "rx_step Bnd st = (if at_boundary st then [st] else [])"
| "rx_step (Seq a b) st = concat (map (rx_step b) (rx_step a st))"
| "rx_step (Alt a b) st = rx_step a st @ rx_step b st"
| "rx_step (Plus a) st = plus_iter (rx_step a) (Suc (length (snd st))) [st]"

text \<open>\<^verbatim>\<open>pattern.search(content)\<close> finds a match starting at some position.\<close>

primrec search_from :: "rx \<Rightarrow> char option \<Rightarrow> string \<Rightarrow> bool" where
  "search_from r p [] = (rx_step r (p, []) \<noteq> [])"
| "search_from r p (x # xs) = (rx_step r (p, x # xs) \<noteq> [] \<or> search_from r (Some x) xs)"

definition search :: "rx \<Rightarrow> string \<Rightarrow> bool" where
  "search r s = search_from r None s"

definition lit :: "string \<Rightarrow> rx" where
  "lit w = foldr (\<lambda>c r. Seq (Chr c) r) w Eps"

definition alts :: "string list \<Rightarrow> rx" where
  "alts ws = foldr (\<lambda>w r. Alt (lit w) r) (butlast ws) (lit (last ws))"

definition seqs :: "rx list \<Rightarrow> rx" where
  "seqs rs = foldr Seq rs Eps"

section \<open>The result model\<close>

text \<open>
  \<^verbatim>\<open>processing_time_ms\<close> is declared \<^verbatim>\<open>int\<close>, but Python does not enforce the
  annotation: the field holds whatever number the constructor was given.
\<close>

datatype pynum = PyInt int | PyFloat real

text \<open>
  The payload of the external analyzer, read by \<^verbatim>\<open>dict.get\<close> with defaults: each field
  is \<open>None\<close> when the key is missing.
\<close>

record analysis =
  safety_safety_score :: "real option"
  recommendation :: "string option"
  overall_confidence :: "real option"
  summary_reasoning :: "string option"

datatype mval =
    MBool bool
  | MStr string
  | MInt int
  | MReal real
  | MStrs "string list"
  | MAnalysis analysis

type_synonym metadata_dict = "string \<rightharpoonup> mval"

record CurationResult =
  action :: string
  reason :: string
  confidence :: real
  safety_score :: real
  processing_time_ms :: pynum
  strategy_used :: string
  metadata :: "metadata_dict option"

text \<open>
  \<^verbatim>\<open>time.time()\<close> is read at the start of a stage and again when its result is built;
  the two readings are inputs of the model. \<^verbatim>\<open>int(x)\<close> truncates toward zero.
\<close>

type_synonym span = "real \<times> real"

definition py_int :: "real \<Rightarrow> int" where
  "py_int x = (if 0 \<le> x then \<lfloor>x\<rfloor> else \<lceil>x\<rceil>)"

definition elapsed_ms :: "span \<Rightarrow> real" where
  "elapsed_ms t = (snd t - fst t) * 1000"

section \<open>FastFilterLayer\<close>

definition profanity_patterns :: "rx list" where
  "profanity_patterns =
     [seqs [Bnd, alts [''fuck'', ''shit'', ''damn'', ''bitch''], Bnd],
      seqs [Bnd, alts [''kill'', ''murder'', ''die''], Plus SpaceCh,
            alts [''you'', ''yourself'', ''them''], Bnd],
      seqs [Bnd, alts [''hate'', ''kill''], Plus SpaceCh, lit ''all'', Plus SpaceCh,
            Plus WordCh, Bnd]]"

definition harmful_url_patterns :: "rx list" where
  "harmful_url_patterns =
     [seqs [lit ''bit.ly/'', Plus AlnumCh],
      lit ''pornhub.com'',
      lit ''xxx.'',
      lit ''.onion'']"

text \<open>The loop \<^verbatim>\<open>for pattern in patterns: if pattern.search(content): return ...\<close>.\<close>

primrec any_match :: "rx list \<Rightarrow> string \<Rightarrow> bool" where
  "any_match [] s = False"
| "any_match (p # ps) s = (if search p s then True else any_match ps s)"

definition check :: "span \<Rightarrow> string \<Rightarrow> CurationResult option" where
  "check t content =
     (if any_match profanity_patterns content then
        Some \<lparr>action = ''block'',
              reason = ''Profanity or harmful language detected'',
              confidence = 0.95,
              safety_score = 0.1,
              processing_time_ms = PyInt (py_int (elapsed_ms t)),
              strategy_used = ''fast_filter'',
              metadata = Some [''filter_type'' \<mapsto> MStr ''profanity'']\<rparr>
      else if any_match harmful_url_patterns content then
        Some \<lparr>action = ''block'',
              reason = ''Harmful URL detected'',
              confidence = 0.9,
              safety_score = 0.05,
              processing_time_ms = PyInt (py_int (elapsed_ms t)),
              strategy_used = ''fast_filter'',
              metadata = Some [''filter_type'' \<mapsto> MStr ''harmful_url'']\<rparr>
      else None)"

section \<open>SpecializedAILayer\<close>

text \<open>
  Scores are Python floats; they are modelled as reals, with the decimal literals of the
  source taken exactly. A score is a keyword count times 0.2 or 0.25, capped at 1.0; for
  every count the float comparison with the threshold decides as the real one does
  (three toxic words give \<^verbatim>\<open>0.6000000000000001\<close>, still below 0.7). The float
  \<^verbatim>\<open>1.0 - score\<close> may differ from the real in the last digit.
  \<^verbatim>\<open>f"{x:.2f}"\<close> is needed for scores in \<open>[0, 1]\<close> only.
\<close>

definition digit :: "nat \<Rightarrow> char" where
  "digit d = ''0123456789'' ! (d mod 10)"

fun show_nat :: "nat \<Rightarrow> string" where
  "show_nat n = (if n < 10 then [digit n] else show_nat (n div 10) @ [digit (n mod 10)])"

definition format_2f :: "real \<Rightarrow> string" where
  "format_2f x =
     (let n = nat (round (x * 100))
      in show_nat (n div 100) @ ''.'' @ [digit (n mod 100 div 10), digit (n mod 10)])"

definition toxic_words :: "string list" where
  "toxic_words = [''hate'', ''kill'', ''stupid'', ''idiot'', ''moron'', ''threat'']"

definition nsfw_words :: "string list" where
  "nsfw_words = [''sex'', ''porn'', ''naked'', ''adult'', ''explicit'']"

text \<open>\<^verbatim>\<open>sum(1 for word in words if word in content.lower())\<close>\<close>

definition keyword_hits :: "string list \<Rightarrow> string \<Rightarrow> nat" where
  "keyword_hits ws content = length (filter (\<lambda>w. contains w (lower content)) ws)"

definition mock_toxicity_analysis :: "string \<Rightarrow> real" where
  "mock_toxicity_analysis content = min (real (keyword_hits toxic_words content) * 0.2) 1.0"

definition mock_nsfw_analysis :: "string \<Rightarrow> real" where
  "mock_nsfw_analysis content = min (real (keyword_hits nsfw_words content) * 0.25) 1.0"

definition toxicity_threshold :: real where
  "toxicity_threshold = 0.7"

definition nsfw_threshold :: real where
  "nsfw_threshold = 0.8"

definition analyze :: "span \<Rightarrow> string \<Rightarrow> CurationResult option" where
  "analyze t content =
     (let toxicity_score = mock_toxicity_analysis content in
      if toxicity_score > toxicity_threshold then
        Some \<lparr>action = ''block'',
              reason = ''High toxicity detected (score: '' @ format_2f toxicity_score @ '')'',
              confidence = 0.85,
              safety_score = 1.0 - toxicity_score,
              processing_time_ms = PyInt (py_int (elapsed_ms t)),
              strategy_used = ''specialized_ai'',
              metadata = Some [''ai_type'' \<mapsto> MStr ''toxicity'',
                               ''toxicity_score'' \<mapsto> MReal toxicity_score]\<rparr>
      else
        (let nsfw_score = mock_nsfw_analysis content in
         if nsfw_score > nsfw_threshold then
           Some \<lparr>action = ''block'',
                 reason = ''NSFW content detected (score: '' @ format_2f nsfw_score @ '')'',
                 confidence = 0.9,
                 safety_score = 1.0 - nsfw_score,
                 processing_time_ms = PyInt (py_int (elapsed_ms t)),
                 strategy_used = ''specialized_ai'',
                 metadata = Some [''ai_type'' \<mapsto> MStr ''nsfw'',
                                  ''nsfw_score'' \<mapsto> MReal nsfw_score]\<rparr>
         else None))"

section \<open>User context, environment and the outside world\<close>

text \<open>
  Modelled from the spec: the types \<^verbatim>\<open>AgeCategory\<close> and \<^verbatim>\<open>UserContext\<close> of the generated
  BAML client (\<^verbatim>\<open>baml_client.types\<close>), which is not among the sources. The members of
  the enum are the four the sources name; the pipeline reads \<^verbatim>\<open>age_category\<close> only.
\<close>

datatype AgeCategory = UNDER_13 | UNDER_16 | UNDER_18 | ADULT

record UserContext =
  age_category :: AgeCategory
  jurisdiction :: string
  parental_controls :: string
  content_preferences :: "string list"
  sensitivity_level :: string

text \<open>
  How an age category prints inside the f-string of the cache key is decided by the enum
  class of the client and by the Python version, so it is a parameter of the
  environment. \<open>age_text\<close> prints the member's value.
\<close>

fun age_text :: "AgeCategory \<Rightarrow> string" where
  "age_text UNDER_13 = ''UNDER_13''"
| "age_text UNDER_16 = ''UNDER_16''"
| "age_text UNDER_18 = ''UNDER_18''"
| "age_text ADULT = ''ADULT''"

text \<open>
  Exceptions (instances of \<^verbatim>\<open>Exception\<close>) are values: the \<^verbatim>\<open>ValueError\<close> that
  \<^verbatim>\<open>LLMOnlyStrategy\<close> raises itself, and whatever the external analyzer raises.
  \<open>message\<close> is \<^verbatim>\<open>str(e)\<close>.
\<close>

datatype error = ValueError string | AnalyzerError string

fun message :: "error \<Rightarrow> string" where
  "message (ValueError m) = m"
| "message (AnalyzerError m) = m"

text \<open>
  The environment is fixed when the module is loaded: whether the BAML client could be
  imported, \<^verbatim>\<open>hashlib.md5(...).hexdigest()\<close>, a library function taken as a parameter,
  and the formatting of an age category.
\<close>

record env =
  BAML_AVAILABLE :: bool
  md5_hexdigest :: "string \<Rightarrow> string"
  format_age :: "AgeCategory \<Rightarrow> string"

text \<open>
  What the outside world does during one call: the clock readings of each stage and the
  outcome of \<^verbatim>\<open>RealBAMLContentAnalyzer.comprehensive_analysis\<close>, should it be awaited.
\<close>

record io =
  t_engine :: span
  t_strategy :: span
  t_fast :: span
  t_special :: span
  t_llm :: span
  comprehensive_analysis :: "string \<Rightarrow> UserContext \<Rightarrow> error + analysis"

section \<open>LLMOnlyStrategy\<close>

definition get_or :: "'a option \<Rightarrow> 'a \<Rightarrow> 'a" where
  "get_or v d = (case v of None \<Rightarrow> d | Some x \<Rightarrow> x)"

definition llm_analyze_content ::
  "env \<Rightarrow> io \<Rightarrow> string \<Rightarrow> UserContext \<Rightarrow> error + CurationResult" where
  "llm_analyze_content e w content uc =
     (if BAML_AVAILABLE e then
        (case comprehensive_analysis w content uc of
           Inl err \<Rightarrow> Inl err
         | Inr result \<Rightarrow>
             Inr \<lparr>action = get_or (recommendation result) ''caution'',
                  reason = get_or (summary_reasoning result) ''LLM analysis completed'',
                  confidence = get_or (overall_confidence result) 0.7,
                  safety_score = get_or (safety_safety_score result) 0.5,
                  processing_time_ms = PyInt (py_int (elapsed_ms (t_llm w))),
                  strategy_used = ''llm_only'',
                  metadata = Some [''full_analysis'' \<mapsto> MAnalysis result,
                                   ''baml_used'' \<mapsto> MBool True]\<rparr>)
      else Inl (ValueError ''LLM-Only Strategy requires BAML but it's not available''))"

section \<open>MultiLayerStrategy\<close>

text \<open>
  Results are objects: the cache holds references to them, and so does the caller. The
  heap lists every result object allocated so far; a reference is an index into it.
\<close>

record ml_state =
  cache :: "string \<rightharpoonup> nat"
  heap :: "CurationResult list"

definition init_state :: ml_state where
  "init_state = \<lparr>cache = Map.empty, heap = []\<rparr>"

definition alloc :: "CurationResult \<Rightarrow> ml_state \<Rightarrow> nat \<times> ml_state" where
  "alloc r s = (length (heap s), s\<lparr>heap := heap s @ [r]\<rparr>)"

definition modify :: "nat \<Rightarrow> (CurationResult \<Rightarrow> CurationResult) \<Rightarrow> ml_state \<Rightarrow> ml_state" where
  "modify a f s = s\<lparr>heap := (heap s)[a := f (heap s ! a)]\<rparr>"

definition cache_key :: "env \<Rightarrow> string \<Rightarrow> AgeCategory \<Rightarrow> string" where
  "cache_key e content age = md5_hexdigest e (content @ format_age e age)"

text \<open>\<^verbatim>\<open>self.cache[cache_key] = result; return result\<close>\<close>

definition cache_and_return ::
  "string \<Rightarrow> CurationResult \<Rightarrow> ml_state \<Rightarrow> (error + nat) \<times> ml_state" where
  "cache_and_return k r s =
     (let (a, s') = alloc r s in (Inr a, s'\<lparr>cache := (cache s')(k \<mapsto> a)\<rparr>))"

definition or_empty :: "metadata_dict option \<Rightarrow> metadata_dict" where
  "or_empty m = (case m of None \<Rightarrow> Map.empty | Some d \<Rightarrow> d)"

definition on_cache_hit :: "CurationResult \<Rightarrow> CurationResult" where
  "on_cache_hit r =
     r\<lparr>processing_time_ms := PyInt 1,
       metadata := Some ((or_empty (metadata r))(''cache_hit'' \<mapsto> MBool True))\<rparr>"

definition llm_watchlist :: "string list" where
  "llm_watchlist = [''political'', ''controversial'', ''opinion'', ''debate'']"

definition requires_llm_analysis :: "string \<Rightarrow> UserContext \<Rightarrow> bool" where
  "requires_llm_analysis content uc \<longleftrightarrow>
     length content > 500
     \<or> age_category uc \<in> {UNDER_13, UNDER_16}
     \<or> list_ex (\<lambda>w. contains w (lower content)) llm_watchlist
     \<or> count_char CHR ''?'' content > 2"

definition analyze_content ::
  "env \<Rightarrow> io \<Rightarrow> ml_state \<Rightarrow> string \<Rightarrow> UserContext \<Rightarrow> (error + nat) \<times> ml_state" where
  "analyze_content e w s content uc =
     (let k = cache_key e content (age_category uc) in
      case cache s k of
        Some a \<Rightarrow> (Inr a, modify a on_cache_hit s)
      | None \<Rightarrow>
         (case check (t_fast w) content of
            Some fast_result \<Rightarrow> cache_and_return k fast_result s
          | None \<Rightarrow>
             (case analyze (t_special w) content of
                Some specialized_result \<Rightarrow> cache_and_return k specialized_result s
              | None \<Rightarrow>
                 if requires_llm_analysis content uc then
                   (if BAML_AVAILABLE e then
                      (case llm_analyze_content e w content uc of
                         Inl err \<Rightarrow> (Inl err, s)
                       | Inr llm_result \<Rightarrow>
                           cache_and_return k
                             (llm_result\<lparr>strategy_used := ''multi_layer_llm''\<rparr>) s)
                    else
                      cache_and_return k
                        \<lparr>action = ''caution'',
                         reason = ''Complex content requires LLM analysis but BAML is not available'',
                         confidence = 0.5,
                         safety_score = 0.6,
                         processing_time_ms = PyFloat (elapsed_ms (t_strategy w)),
                         strategy_used = ''multi_layer_cautious'',
                         metadata = Some [''baml_required'' \<mapsto> MBool True,
                                          ''baml_available'' \<mapsto> MBool False,
                                          ''engine_strategy'' \<mapsto> MStr ''multi_layer'']\<rparr> s)
                 else
                   cache_and_return k
                     \<lparr>action = ''allow'',
                      reason = ''Passed all automated checks'',
                      confidence = 0.8,
                      safety_score = 0.9,
                      processing_time_ms = PyInt (py_int (elapsed_ms (t_strategy w))),
                      strategy_used = ''multi_layer_auto'',
                      metadata = Some [''layers_passed'' \<mapsto>
                                         MStrs [''fast_filter'', ''specialized_ai'']]\<rparr> s)))"

section \<open>HybridStrategy\<close>

definition nuance_words :: "string list" where
  "nuance_words = [''cultural'', ''religious'', ''philosophical'', ''ethical'',
                   ''moral'', ''values'', ''belief'', ''opinion'', ''perspective'']"

definition educational_words :: "string list" where
  "educational_words = [''learn'', ''education'', ''teaching'', ''academic'',
                        ''study'', ''research'', ''knowledge'']"

definition political_words :: "string list" where
  "political_words = [''political'', ''government'', ''policy'', ''election'']"

definition should_use_llm_only :: "string \<Rightarrow> bool" where
  "should_use_llm_only content \<longleftrightarrow>
     (contains ''demo'' (lower content) \<or> contains ''test'' (lower content))
     \<or> list_ex (\<lambda>w. contains w (lower content)) nuance_words
     \<or> list_ex (\<lambda>w. contains w (lower content)) educational_words
     \<or> length (filter (\<lambda>w. contains w (lower content)) political_words) > 1"

definition retag :: "string \<Rightarrow> CurationResult \<Rightarrow> CurationResult" where
  "retag tag r = r\<lparr>strategy_used := tag\<rparr>"

definition hybrid_analyze_content ::
  "env \<Rightarrow> io \<Rightarrow> ml_state \<Rightarrow> string \<Rightarrow> UserContext \<Rightarrow> (error + nat) \<times> ml_state" where
  "hybrid_analyze_content e w s content uc =
     (if should_use_llm_only content then
        (case llm_analyze_content e w content uc of
           Inl err \<Rightarrow> (Inl err, s)
         | Inr result \<Rightarrow> (let (a, s') = alloc result s in (Inr a, modify a (retag ''hybrid_llm'') s')))
      else
        (case analyze_content e w s content uc of
           (Inl err, s') \<Rightarrow> (Inl err, s')
         | (Inr a, s') \<Rightarrow> (Inr a, modify a (retag ''hybrid_multi'') s')))"

section \<open>CurationEngine\<close>

datatype CurationStrategy = LLM_ONLY | MULTI_LAYER | HYBRID

fun strategy_value :: "CurationStrategy \<Rightarrow> string" where
  "strategy_value LLM_ONLY = ''llm_only''"
| "strategy_value MULTI_LAYER = ''multi_layer''"
| "strategy_value HYBRID = ''hybrid''"

text \<open>
  The engine owns the strategy selector and the strategy instance; the instance's state
  is the cache of its multi-layer pipeline (unused by \<open>LLM_ONLY\<close>) and the result objects.
\<close>

record engine =
  strategy_type :: CurationStrategy
  strategy :: ml_state

definition create_engine :: "CurationStrategy \<Rightarrow> engine" where
  "create_engine st = \<lparr>strategy_type = st, strategy = init_state\<rparr>"

definition switch_strategy :: "CurationStrategy \<Rightarrow> engine \<Rightarrow> engine" where
  "switch_strategy new_strategy g =
     g\<lparr>strategy_type := new_strategy, strategy := (strategy g)\<lparr>cache := Map.empty\<rparr>\<rparr>"

text \<open>\<^verbatim>\<open>self.strategy.analyze_content(content, user_context)\<close>, by the kind of strategy.\<close>

definition strategy_analyze_content ::
  "env \<Rightarrow> io \<Rightarrow> CurationStrategy \<Rightarrow> ml_state \<Rightarrow> string \<Rightarrow> UserContext
     \<Rightarrow> (error + nat) \<times> ml_state" where
  "strategy_analyze_content e w st s content uc =
     (case st of
        LLM_ONLY \<Rightarrow>
          (case llm_analyze_content e w content uc of
             Inl err \<Rightarrow> (Inl err, s)
           | Inr result \<Rightarrow> (let (a, s') = alloc result s in (Inr a, s')))
      | MULTI_LAYER \<Rightarrow> analyze_content e w s content uc
      | HYBRID \<Rightarrow> hybrid_analyze_content e w s content uc)"

definition add_engine_metadata :: "string \<Rightarrow> int \<Rightarrow> CurationResult \<Rightarrow> CurationResult" where
  "add_engine_metadata sv ms r =
     r\<lparr>metadata := Some ((or_empty (metadata r))
                          (''engine_strategy'' \<mapsto> MStr sv,
                           ''total_processing_time_ms'' \<mapsto> MInt ms))\<rparr>"

definition error_result :: "span \<Rightarrow> error \<Rightarrow> CurationResult" where
  "error_result t err =
     \<lparr>action = ''caution'',
      reason = ''Engine error: '' @ message err,
      confidence = 0.0,
      safety_score = 0.5,
      processing_time_ms = PyInt (py_int (elapsed_ms t)),
      strategy_used = ''error_handling'',
      metadata = Some [''error'' \<mapsto> MStr (message err)]\<rparr>"

definition curate_content ::
  "env \<Rightarrow> io \<Rightarrow> engine \<Rightarrow> string \<Rightarrow> UserContext \<Rightarrow> (error + nat) \<times> engine" where
  "curate_content e w g content uc =
     (case strategy_analyze_content e w (strategy_type g) (strategy g) content uc of
        (Inr a, s') \<Rightarrow>
          (Inr a,
           g\<lparr>strategy :=
               modify a (add_engine_metadata (strategy_value (strategy_type g))
                           (py_int (elapsed_ms (t_engine w)))) s'\<rparr>)
      | (Inl err, s') \<Rightarrow>
          (let (a, s'') = alloc (error_result (t_engine w) err) s'
           in (Inr a, g\<lparr>strategy := s''\<rparr>)))"

section \<open>The cache miss and the cache invariant\<close>

text \<open>
  The definitions of this section are not functions of the source: they name what a call
  of \<^verbatim>\<open>MultiLayerStrategy.analyze_content\<close> computes on a cache miss, and when the cache
  of a strategy instance is well formed.

  \<open>pipeline\<close> is the result that layers 1 to 3 and the default build on a cache miss.
\<close>

definition pipeline :: "env \<Rightarrow> io \<Rightarrow> string \<Rightarrow> UserContext \<Rightarrow> error + CurationResult" where
  "pipeline e w content uc =
     (case check (t_fast w) content of
        Some fast_result \<Rightarrow> Inr fast_result
      | None \<Rightarrow>
         (case analyze (t_special w) content of
            Some specialized_result \<Rightarrow> Inr specialized_result
          | None \<Rightarrow>
             if requires_llm_analysis content uc then
               (if BAML_AVAILABLE e then
                  map_sum id (retag ''multi_layer_llm'') (llm_analyze_content e w content uc)
                else
                  Inr \<lparr>action = ''caution'',
                       reason = ''Complex content requires LLM analysis but BAML is not available'',
                       confidence = 0.5,
                       safety_score = 0.6,
                       processing_time_ms = PyFloat (elapsed_ms (t_strategy w)),
                       strategy_used = ''multi_layer_cautious'',
                       metadata = Some [''baml_required'' \<mapsto> MBool True,
                                        ''baml_available'' \<mapsto> MBool False,
                                        ''engine_strategy'' \<mapsto> MStr ''multi_layer'']\<rparr>)
             else
               Inr \<lparr>action = ''allow'',
                    reason = ''Passed all automated checks'',
                    confidence = 0.8,
                    safety_score = 0.9,
                    processing_time_ms = PyInt (py_int (elapsed_ms (t_strategy w))),
                    strategy_used = ''multi_layer_auto'',
                    metadata = Some [''layers_passed'' \<mapsto>
                                       MStrs [''fast_filter'', ''specialized_ai'']]\<rparr>))"

text \<open>Every cached reference points to an allocated result object.\<close>

definition cache_ok :: "ml_state \<Rightarrow> bool" where
  "cache_ok s \<longleftrightarrow> (\<forall>k a. cache s k = Some a \<longrightarrow> a < length (heap s))"

text \<open>
  \<open>fast_hit\<close>: some pattern of the fast filter matches. \<open>quiet\<close>: no layer fires and no
  escalation condition holds.
\<close>

definition fast_hit :: "string \<Rightarrow> bool" where
  "fast_hit content \<longleftrightarrow>
     (\<exists>p\<in>set (profanity_patterns @ harmful_url_patterns). search p content)"

definition quiet :: "string \<Rightarrow> AgeCategory \<Rightarrow> bool" where
  "quiet content age \<longleftrightarrow>
     \<not> fast_hit content
     \<and> mock_toxicity_analysis content \<le> toxicity_threshold
     \<and> mock_nsfw_analysis content \<le> nsfw_threshold
     \<and> length content \<le> 500
     \<and> age \<noteq> UNDER_13 \<and> age \<noteq> UNDER_16
     \<and> \<not> (\<exists>w\<in>set llm_watchlist. contains w (lower content))
     \<and> count_char CHR ''?'' content \<le> 2"

section \<open>Sample inputs\<close>

text \<open>
  The sample environments use the identity in place of the digest: the examples do not
  depend on the digest's values.
\<close>

definition adult :: UserContext where
  "adult = \<lparr>age_category = ADULT, jurisdiction = ''US'', parental_controls = ''MODERATE'',
            content_preferences = [''educational''], sensitivity_level = ''MEDIUM''\<rparr>"

definition sample_analysis :: analysis where
  "sample_analysis = \<lparr>safety_safety_score = None, recommendation = Some ''allow'',
                       overall_confidence = None, summary_reasoning = None\<rparr>"

definition env_without_baml :: env where
  "env_without_baml =
     \<lparr>BAML_AVAILABLE = False, md5_hexdigest = (\<lambda>x. x), format_age = age_text\<rparr>"

definition env_with_baml :: env where
  "env_with_baml =
     \<lparr>BAML_AVAILABLE = True, md5_hexdigest = (\<lambda>x. x), format_age = age_text\<rparr>"

definition io_ok :: io where
  "io_ok = \<lparr>t_engine = (0, 0.004), t_strategy = (0, 0.0025), t_fast = (0, 0.002),
            t_special = (0, 0.002), t_llm = (0, 0.002),
            comprehensive_analysis = (\<lambda>content uc. Inr sample_analysis)\<rparr>"

definition io_failing :: io where
  "io_failing = \<lparr>t_engine = (0, 0.004), t_strategy = (0, 0.0025), t_fast = (0, 0.002),
            t_special = (0, 0.002), t_llm = (0, 0.002),
            comprehensive_analysis = (\<lambda>content uc. Inl (AnalyzerError ''timeout''))\<rparr>"

definition after_first_call :: ml_state where
  "after_first_call =
     snd (analyze_content env_without_baml io_ok init_state ''well DAMN it'' adult)"

definition after_second_call :: ml_state where
  "after_second_call =
     snd (analyze_content env_without_baml io_ok after_first_call ''well DAMN it'' adult)"

definition after_debate :: ml_state where
  "after_debate =
     snd (analyze_content env_without_baml io_ok init_state ''Is this a debate?'' adult)"

definition after_failed_curate :: engine where
  "after_failed_curate =
     snd (curate_content env_without_baml io_ok (create_engine LLM_ONLY) ''hello'' adult)"





section \<open>The routing condition of the specification\<close>






section \<open>Basic facts\<close>

lemma any_match_iff: "any_match ps s \<longleftrightarrow> (\<exists>p\<in>set ps. search p s)"
  by (induction ps) auto

lemma analyze_content_pipeline:
  "analyze_content e w s content uc =
     (case cache s (cache_key e content (age_category uc)) of
        Some a \<Rightarrow> (Inr a, modify a on_cache_hit s)
      | None \<Rightarrow>
         (case pipeline e w content uc of
            Inl err \<Rightarrow> (Inl err, s)
          | Inr r \<Rightarrow> cache_and_return (cache_key e content (age_category uc)) r s))"
  by (simp add: analyze_content_def pipeline_def retag_def Let_def
      split: option.splits sum.splits)

lemma cache_and_return_eq:
  "cache_and_return k r s =
     (Inr (length (heap s)), \<lparr>cache = (cache s)(k \<mapsto> length (heap s)), heap = heap s @ [r]\<rparr>)"
  by (simp add: cache_and_return_def alloc_def)

lemma modify_simps [simp]:
  "cache (modify a f s) = cache s"
  "heap (modify a f s) = (heap s)[a := f (heap s ! a)]"
  by (simp_all add: modify_def)

lemma analyze_content_cached:
  assumes "analyze_content e w s content uc = (Inr a, s')"
  shows "cache s' (cache_key e content (age_category uc)) = Some a"
  using assms
  by (auto simp: analyze_content_pipeline cache_and_return_eq split: option.splits sum.splits)

lemma analyze_content_error_iff:
  "analyze_content e w s content uc = (Inl err, s') \<longleftrightarrow>
     cache s (cache_key e content (age_category uc)) = None
     \<and> pipeline e w content uc = Inl err \<and> s' = s"
  by (auto simp: analyze_content_pipeline cache_and_return_eq split: option.splits sum.splits)

lemma pipeline_error_iff:
  "pipeline e w content uc = Inl err \<longleftrightarrow>
     check (t_fast w) content = None \<and> analyze (t_special w) content = None
     \<and> requires_llm_analysis content uc \<and> BAML_AVAILABLE e
     \<and> comprehensive_analysis w content uc = Inl err"
  by (auto simp: pipeline_def llm_analyze_content_def split: option.splits sum.splits)

lemma cache_ok_step:
  assumes "cache_ok s" "analyze_content e w s content uc = (r, s')"
  shows "cache_ok s'"
  using assms
  by (auto simp: analyze_content_pipeline cache_and_return_eq cache_ok_def less_Suc_eq
      split: option.splits sum.splits if_splits)


lemma check_None_iff: "check t content = None \<longleftrightarrow> \<not> fast_hit content"
  by (auto simp: check_def fast_hit_def any_match_iff)


lemma analyze_None_iff:
  "analyze t content = None \<longleftrightarrow>
     mock_toxicity_analysis content \<le> toxicity_threshold
     \<and> mock_nsfw_analysis content \<le> nsfw_threshold"
  by (auto simp: analyze_def Let_def)

lemma requires_llm_analysis_iff:
  "requires_llm_analysis content uc \<longleftrightarrow>
     length content > 500
     \<or> age_category uc = UNDER_13 \<or> age_category uc = UNDER_16
     \<or> (\<exists>w\<in>set llm_watchlist. contains w (lower content))
     \<or> count_char CHR ''?'' content > 2"
  by (auto simp: requires_llm_analysis_def list_ex_iff)

lemma pipeline_quiet:
  assumes "quiet content (age_category uc)"
  shows "\<exists>r. pipeline e w content uc = Inr r \<and> action r = ''allow'' \<and> confidence r = 0.8
           \<and> safety_score r = 0.9 \<and> strategy_used r = ''multi_layer_auto''"
proof -
  from assms have c: "check (t_fast w) content = None"
    by (simp add: quiet_def check_None_iff)
  from assms have a: "analyze (t_special w) content = None"
    by (simp add: quiet_def analyze_None_iff)
  from assms have r: "\<not> requires_llm_analysis content uc"
    by (auto simp: quiet_def requires_llm_analysis_iff)
  show ?thesis by (simp add: pipeline_def c a r)
qed


lemma analyze_content_returns:
  assumes "pipeline e w content uc = Inr x"
  shows "\<exists>a s'. analyze_content e w s content uc = (Inr a, s')"
  using assms
  by (auto simp: analyze_content_pipeline cache_and_return_eq split: option.splits)

text \<open>Concrete matches, evaluated once.\<close>

lemma ex_damn: "any_match profanity_patterns ''well DAMN it''"
  by code_simp


lemma ex_lunch:
  "\<not> any_match (profanity_patterns @ harmful_url_patterns) ''Just had a great lunch today''"
  by code_simp

lemma ex_lunch_hits:
  "keyword_hits toxic_words ''Just had a great lunch today'' = 0
   \<and> keyword_hits nsfw_words ''Just had a great lunch today'' = 0
   \<and> \<not> list_ex (\<lambda>w. contains w (lower ''Just had a great lunch today'')) llm_watchlist"
  by code_simp

lemma cache_ok_init: "cache_ok init_state"
  by (simp add: cache_ok_def init_state_def)

lemma analyze_content_fresh:
  assumes "pipeline e w content uc = Inr x"
  shows "analyze_content e w init_state content uc
           = (Inr 0, \<lparr>cache = [cache_key e content (age_category uc) \<mapsto> 0], heap = [x]\<rparr>)"
  using assms by (simp add: analyze_content_pipeline init_state_def cache_and_return_eq)

lemma lunch_quiet: "quiet ''Just had a great lunch today'' ADULT"
  using ex_lunch ex_lunch_hits
  by (simp add: quiet_def fast_hit_def any_match_iff mock_toxicity_analysis_def
      mock_nsfw_analysis_def toxicity_threshold_def nsfw_threshold_def list_ex_iff
      count_char_def)

lemma lunch_first_call:
  "fst (analyze_content e w init_state ''Just had a great lunch today'' adult) = Inr 0"
proof -
  have "quiet ''Just had a great lunch today'' (age_category adult)"
    using lunch_quiet by (simp add: adult_def)
  then obtain x where "pipeline e w ''Just had a great lunch today'' adult = Inr x"
    using pipeline_quiet by blast
  then show ?thesis by (simp add: analyze_content_fresh)
qed

lemma ex_debate:
  "\<not> any_match (profanity_patterns @ harmful_url_patterns) ''Is this a debate?''
   \<and> keyword_hits toxic_words ''Is this a debate?'' = 0
   \<and> keyword_hits nsfw_words ''Is this a debate?'' = 0
   \<and> list_ex (\<lambda>w. contains w (lower ''Is this a debate?'')) llm_watchlist"
  by code_simp

lemma debate_layers:
  "check t ''Is this a debate?'' = None \<and> analyze t' ''Is this a debate?'' = None
   \<and> requires_llm_analysis ''Is this a debate?'' uc"
  using ex_debate
  by (simp add: check_None_iff fast_hit_def any_match_iff analyze_None_iff
      mock_toxicity_analysis_def mock_nsfw_analysis_def toxicity_threshold_def
      nsfw_threshold_def requires_llm_analysis_def)

lemma py_int_of_int [simp]: "py_int (of_int n) = n"
  by (simp add: py_int_def)

lemma pipeline_damn:
  "pipeline env_without_baml io_ok ''well DAMN it'' adult =
      Inr \<lparr>action = ''block'',
           reason = ''Profanity or harmful language detected'',
           confidence = 0.95,
           safety_score = 0.1,
           processing_time_ms = PyInt 2,
           strategy_used = ''fast_filter'',
           metadata = Some [''filter_type'' \<mapsto> MStr ''profanity'']\<rparr>"
proof -
  have "py_int (elapsed_ms (0, 0.002)) = 2"
    using py_int_of_int [of 2] by (simp add: elapsed_ms_def)
  then show ?thesis
    by (simp add: pipeline_def check_def ex_damn io_ok_def)
qed

lemma after_first_call_val:
  "after_first_call =
       \<lparr>cache = [''well DAMN itADULT'' \<mapsto> 0],
        heap = [\<lparr>action = ''block'',
                 reason = ''Profanity or harmful language detected'',
                 confidence = 0.95,
                 safety_score = 0.1,
                 processing_time_ms = PyInt 2,
                 strategy_used = ''fast_filter'',
                 metadata = Some [''filter_type'' \<mapsto> MStr ''profanity'']\<rparr>]\<rparr>"
  using analyze_content_fresh [OF pipeline_damn]
  by (simp add: after_first_call_def cache_key_def env_without_baml_def adult_def)

lemma first_call_returns:
  "analyze_content env_without_baml io_ok init_state ''well DAMN it'' adult
     = (Inr 0, after_first_call)"
  using analyze_content_fresh [OF pipeline_damn]
  by (simp add: after_first_call_def)

lemma after_first_call_key:
  "cache after_first_call
     (cache_key env_without_baml ''well DAMN it'' (age_category adult)) = Some 0"
  by (simp add: after_first_call_val cache_key_def env_without_baml_def adult_def)



lemma alloc_eq: "alloc r s = (length (heap s), s\<lparr>heap := heap s @ [r]\<rparr>)"
  by (simp add: alloc_def)

lemma strategy_ref_valid:
  assumes "cache_ok s"
    and "strategy_analyze_content e w st s content uc = (Inr a, s')"
  shows "a < length (heap s')"
proof (cases st)
  case LLM_ONLY
  with assms(2) show ?thesis
    by (auto simp: strategy_analyze_content_def alloc_eq split: sum.splits)
next
  case MULTI_LAYER
  with assms(2) have step: "analyze_content e w s content uc = (Inr a, s')"
    by (simp add: strategy_analyze_content_def)
  have "cache_ok s'" using cache_ok_step [OF assms(1) step] .
  with analyze_content_cached [OF step] show ?thesis by (auto simp: cache_ok_def)
next
  case HYBRID
  show ?thesis
  proof (cases "should_use_llm_only content")
    case True
    with HYBRID assms(2) show ?thesis
      by (auto simp: strategy_analyze_content_def hybrid_analyze_content_def alloc_eq
          split: sum.splits)
  next
    case False
    with HYBRID assms(2) obtain s1 where
      step: "analyze_content e w s content uc = (Inr a, s1)"
      and s': "s' = modify a (retag ''hybrid_multi'') s1"
      by (auto simp: strategy_analyze_content_def hybrid_analyze_content_def
          split: sum.splits prod.splits)
    have "cache_ok s1" using cache_ok_step [OF assms(1) step] .
    with analyze_content_cached [OF step] have "a < length (heap s1)"
      by (auto simp: cache_ok_def)
    with s' show ?thesis by simp
  qed
qed


lemma llm_only_without_baml:
  "strategy_analyze_content env_without_baml w LLM_ONLY s content uc
     = (Inl (ValueError ''LLM-Only Strategy requires BAML but it's not available''), s)"
  by (simp add: strategy_analyze_content_def llm_analyze_content_def env_without_baml_def)












section \<open>Properties of the fast filter\<close>



section \<open>Properties of the multi-layer strategy\<close>







text \<open>
  C7. Two successive calls with the same content and age category, the first of which
  returns a result: the second call is served from the cache and returns the same result
  object. Against the result of the first call, action, confidence and safety score (and
  reason and strategy tag) are the same; \<^verbatim>\<open>processing_time_ms\<close> is 1 and the metadata has
  gained \<^verbatim>\<open>cache_hit\<close>. The outside world may behave differently during the two calls.
\<close>

theorem second_call_from_cache:
  assumes "cache_ok s"
    and "analyze_content e w s content uc = (Inr a, s1)"
    and "age_category uc' = age_category uc"
  shows "\<exists>s2. analyze_content e w' s1 content uc' = (Inr a, s2)
           \<and> cache s2 = cache s1
           \<and> action (heap s2 ! a) = action (heap s1 ! a)
           \<and> confidence (heap s2 ! a) = confidence (heap s1 ! a)
           \<and> safety_score (heap s2 ! a) = safety_score (heap s1 ! a)
           \<and> reason (heap s2 ! a) = reason (heap s1 ! a)
           \<and> strategy_used (heap s2 ! a) = strategy_used (heap s1 ! a)
           \<and> processing_time_ms (heap s2 ! a) = PyInt 1
           \<and> metadata (heap s2 ! a)
               = Some ((or_empty (metadata (heap s1 ! a)))(''cache_hit'' \<mapsto> MBool True))"
proof -
  have hit: "cache s1 (cache_key e content (age_category uc')) = Some a"
    using analyze_content_cached [OF assms(2)] assms(3) by simp
  have "cache_ok s1" using cache_ok_step [OF assms(1,2)] .
  with hit have lt: "a < length (heap s1)" by (auto simp: cache_ok_def)
  have "analyze_content e w' s1 content uc' = (Inr a, modify a on_cache_hit s1)"
    using hit by (simp add: analyze_content_pipeline)
  then show ?thesis using lt by (simp add: on_cache_hit_def)
qed

theorem second_call_from_cache_witness:
  "cache_ok init_state
   \<and> analyze_content env_without_baml io_ok init_state ''Just had a great lunch today'' adult
       = (Inr 0, snd (analyze_content env_without_baml io_ok init_state
                        ''Just had a great lunch today'' adult))
   \<and> (\<exists>s2. analyze_content env_without_baml io_failing
               (snd (analyze_content env_without_baml io_ok init_state
                        ''Just had a great lunch today'' adult))
               ''Just had a great lunch today'' adult = (Inr 0, s2)
           \<and> action (heap s2 ! 0) = action (heap (snd (analyze_content env_without_baml io_ok
                 init_state ''Just had a great lunch today'' adult)) ! 0)
           \<and> processing_time_ms (heap s2 ! 0) = PyInt 1)"
proof -
  let ?c = "''Just had a great lunch today''"
  let ?s1 = "snd (analyze_content env_without_baml io_ok init_state ?c adult)"
  have st: "analyze_content env_without_baml io_ok init_state ?c adult = (Inr 0, ?s1)"
    using lunch_first_call [of env_without_baml io_ok] by (simp add: prod_eq_iff)
  have "\<exists>s2. analyze_content env_without_baml io_failing ?s1 ?c adult = (Inr 0, s2)
           \<and> cache s2 = cache ?s1
           \<and> action (heap s2 ! 0) = action (heap ?s1 ! 0)
           \<and> confidence (heap s2 ! 0) = confidence (heap ?s1 ! 0)
           \<and> safety_score (heap s2 ! 0) = safety_score (heap ?s1 ! 0)
           \<and> reason (heap s2 ! 0) = reason (heap ?s1 ! 0)
           \<and> strategy_used (heap s2 ! 0) = strategy_used (heap ?s1 ! 0)
           \<and> processing_time_ms (heap s2 ! 0) = PyInt 1
           \<and> metadata (heap s2 ! 0)
               = Some ((or_empty (metadata (heap ?s1 ! 0)))(''cache_hit'' \<mapsto> MBool True))"
    by (rule second_call_from_cache [OF cache_ok_init st refl])
  with cache_ok_init st show ?thesis by blast
qed

text \<open>
  C10. When the escalation step is reached on a cache miss and the awaited analysis
  raises, the exception leaves \<^verbatim>\<open>analyze_content\<close> and the state is the one before the
  call: the cache has no entry under the key, so a later identical request starts from
  the same state and runs the pipeline again.
\<close>

theorem llm_failure_not_cached:
  assumes "cache s (cache_key e content (age_category uc)) = None"
    and "check (t_fast w) content = None"
    and "analyze (t_special w) content = None"
    and "requires_llm_analysis content uc"
    and "BAML_AVAILABLE e"
    and "comprehensive_analysis w content uc = Inl err"
  shows "\<exists>s'. analyze_content e w s content uc = (Inl err, s') \<and> s' = s
           \<and> cache s' (cache_key e content (age_category uc)) = None"
  using assms by (simp add: analyze_content_error_iff pipeline_error_iff)

theorem llm_failure_not_cached_witness:
  "cache init_state (cache_key env_with_baml ''Is this a debate?'' (age_category adult)) = None
   \<and> check (t_fast io_failing) ''Is this a debate?'' = None
   \<and> analyze (t_special io_failing) ''Is this a debate?'' = None
   \<and> requires_llm_analysis ''Is this a debate?'' adult
   \<and> BAML_AVAILABLE env_with_baml
   \<and> comprehensive_analysis io_failing ''Is this a debate?'' adult = Inl (AnalyzerError ''timeout'')
   \<and> analyze_content env_with_baml io_failing init_state ''Is this a debate?'' adult
       = (Inl (AnalyzerError ''timeout''), init_state)"
proof -
  have h1: "cache init_state (cache_key env_with_baml ''Is this a debate?'' (age_category adult)) = None"
    by (simp add: init_state_def)
  have h2: "check (t_fast io_failing) ''Is this a debate?'' = None"
    and h3: "analyze (t_special io_failing) ''Is this a debate?'' = None"
    and h4: "requires_llm_analysis ''Is this a debate?'' adult"
    using debate_layers by blast+
  have h5: "BAML_AVAILABLE env_with_baml" by (simp add: env_with_baml_def)
  have h6: "comprehensive_analysis io_failing ''Is this a debate?'' adult
              = Inl (AnalyzerError ''timeout'')"
    by (simp add: io_failing_def)
  have "\<exists>s'. analyze_content env_with_baml io_failing init_state ''Is this a debate?'' adult
                = (Inl (AnalyzerError ''timeout''), s') \<and> s' = init_state
           \<and> cache s' (cache_key env_with_baml ''Is this a debate?'' (age_category adult)) = None"
    by (rule llm_failure_not_cached [OF h1 h2 h3 h4 h5 h6])
  with h1 h2 h3 h4 h5 h6 show ?thesis by blast
qed

section \<open>Aliasing of cached results\<close>

text \<open>
  C2, as stated, fails: a cache hit returns the cached object itself and writes to it.
  After a first call that stores result object 0, a second identical call returns
  reference 0 again, allocates nothing, and object 0 now reads
  \<^verbatim>\<open>processing_time_ms = 1\<close> (it was 2) and has the metadata key \<^verbatim>\<open>cache_hit\<close>.
\<close>

theorem cache_hit_mutates_cached_instance:
  "analyze_content env_without_baml io_ok init_state ''well DAMN it'' adult
     = (Inr 0, after_first_call)
   \<and> cache after_first_call (cache_key env_without_baml ''well DAMN it'' ADULT) = Some 0
   \<and> analyze_content env_without_baml io_ok after_first_call ''well DAMN it'' adult
       = (Inr 0, after_second_call)
   \<and> length (heap after_second_call) = 1
   \<and> processing_time_ms (heap after_first_call ! 0) = PyInt 2
   \<and> processing_time_ms (heap after_second_call ! 0) = PyInt 1
   \<and> or_empty (metadata (heap after_first_call ! 0)) ''cache_hit'' = None
   \<and> or_empty (metadata (heap after_second_call ! 0)) ''cache_hit'' = Some (MBool True)"
proof -
  note a = first_call_returns
  note k = after_first_call_key
  have b: "analyze_content env_without_baml io_ok after_first_call ''well DAMN it'' adult
       = (Inr 0, modify 0 on_cache_hit after_first_call)"
    using k by (simp add: analyze_content_pipeline)
  then have c: "after_second_call = modify 0 on_cache_hit after_first_call"
    by (simp add: after_second_call_def)
  have d: "heap after_second_call = [on_cache_hit (heap after_first_call ! 0)]"
    unfolding c by (simp add: after_first_call_val)
  have e: "heap after_first_call ! 0 =
             \<lparr>action = ''block'',
              reason = ''Profanity or harmful language detected'',
              confidence = 0.95,
              safety_score = 0.1,
              processing_time_ms = PyInt 2,
              strategy_used = ''fast_filter'',
              metadata = Some [''filter_type'' \<mapsto> MStr ''profanity'']\<rparr>"
    by (simp add: after_first_call_val)
  have f: "cache after_first_call (cache_key env_without_baml ''well DAMN it'' ADULT) = Some 0"
    using k by (simp add: adult_def)
  show ?thesis
    unfolding d e using a b c f by (simp add: on_cache_hit_def or_empty_def)
qed

text \<open>
  C2, amended. On a cache hit \<^verbatim>\<open>analyze_content\<close> returns the cached instance itself, not
  a copy: no object is allocated and the cache is unchanged. The hit path sets the
  instance's \<^verbatim>\<open>processing_time_ms\<close> to 1 and its metadata key \<^verbatim>\<open>cache_hit\<close> to true in
  place; its action, confidence and safety score, and every other object, are unchanged.
\<close>

theorem cache_hit_in_place:
  assumes "cache s (cache_key e content (age_category uc)) = Some a"
    and "a < length (heap s)"
  shows "\<exists>s'. analyze_content e w s content uc = (Inr a, s')
           \<and> cache s' = cache s
           \<and> length (heap s') = length (heap s)
           \<and> heap s' ! a =
               (heap s ! a)\<lparr>processing_time_ms := PyInt 1,
                             metadata := Some ((or_empty (metadata (heap s ! a)))
                                                 (''cache_hit'' \<mapsto> MBool True))\<rparr>
           \<and> action (heap s' ! a) = action (heap s ! a)
           \<and> confidence (heap s' ! a) = confidence (heap s ! a)
           \<and> safety_score (heap s' ! a) = safety_score (heap s ! a)
           \<and> (\<forall>b. b \<noteq> a \<longrightarrow> heap s' ! b = heap s ! b)"
  using assms by (simp add: analyze_content_pipeline on_cache_hit_def)

theorem cache_hit_in_place_witness:
  "cache after_first_call (cache_key env_without_baml ''well DAMN it'' (age_category adult)) = Some 0
   \<and> 0 < length (heap after_first_call)
   \<and> (\<exists>s'. analyze_content env_without_baml io_failing after_first_call ''well DAMN it'' adult
              = (Inr 0, s')
           \<and> cache s' = cache after_first_call
           \<and> length (heap s') = length (heap after_first_call)
           \<and> processing_time_ms (heap s' ! 0) = PyInt 1
           \<and> action (heap s' ! 0) = action (heap after_first_call ! 0)
           \<and> confidence (heap s' ! 0) = confidence (heap after_first_call ! 0)
           \<and> safety_score (heap s' ! 0) = safety_score (heap after_first_call ! 0))"
proof -
  note k = after_first_call_key
  have l: "0 < length (heap after_first_call)"
    by (simp add: after_first_call_val)
  obtain s' where
    "analyze_content env_without_baml io_failing after_first_call ''well DAMN it'' adult
       = (Inr 0, s')
     \<and> cache s' = cache after_first_call
     \<and> length (heap s') = length (heap after_first_call)
     \<and> heap s' ! 0 =
         (heap after_first_call ! 0)\<lparr>processing_time_ms := PyInt 1,
            metadata := Some ((or_empty (metadata (heap after_first_call ! 0)))
                                (''cache_hit'' \<mapsto> MBool True))\<rparr>
     \<and> action (heap s' ! 0) = action (heap after_first_call ! 0)
     \<and> confidence (heap s' ! 0) = confidence (heap after_first_call ! 0)
     \<and> safety_score (heap s' ! 0) = safety_score (heap after_first_call ! 0)
     \<and> (\<forall>b. b \<noteq> 0 \<longrightarrow> heap s' ! b = heap after_first_call ! b)"
    using cache_hit_in_place [OF k l, of io_failing] by blast
  then have "analyze_content env_without_baml io_failing after_first_call ''well DAMN it'' adult
              = (Inr 0, s')
           \<and> cache s' = cache after_first_call
           \<and> length (heap s') = length (heap after_first_call)
           \<and> processing_time_ms (heap s' ! 0) = PyInt 1
           \<and> action (heap s' ! 0) = action (heap after_first_call ! 0)
           \<and> confidence (heap s' ! 0) = confidence (heap after_first_call ! 0)
           \<and> safety_score (heap s' ! 0) = safety_score (heap after_first_call ! 0)"
    by simp
  with k l show ?thesis by blast
qed

section \<open>The type of the processing time\<close>

text \<open>
  C9. The caution branch of \<^verbatim>\<open>MultiLayerStrategy.analyze_content\<close> stores
  \<^verbatim>\<open>(time.time() - start_time) * 1000\<close> without \<^verbatim>\<open>int(...)\<close>: with the LLM unavailable,
  content that needs escalation gets a result whose \<^verbatim>\<open>processing_time_ms\<close> is the float
  2.5 when 2.5 ms have elapsed, where every other constructor truncates to an integer.
\<close>

theorem caution_branch_time_is_float:
  "analyze_content env_without_baml io_ok init_state ''Is this a debate?'' adult
     = (Inr 0, after_debate)
   \<and> action (heap after_debate ! 0) = ''caution''
   \<and> strategy_used (heap after_debate ! 0) = ''multi_layer_cautious''
   \<and> processing_time_ms (heap after_debate ! 0) = PyFloat 2.5"
proof -
  have "pipeline env_without_baml io_ok ''Is this a debate?'' adult =
      Inr \<lparr>action = ''caution'',
           reason = ''Complex content requires LLM analysis but BAML is not available'',
           confidence = 0.5,
           safety_score = 0.6,
           processing_time_ms = PyFloat 2.5,
           strategy_used = ''multi_layer_cautious'',
           metadata = Some [''baml_required'' \<mapsto> MBool True,
                            ''baml_available'' \<mapsto> MBool False,
                            ''engine_strategy'' \<mapsto> MStr ''multi_layer'']\<rparr>"
    using debate_layers [of "t_fast io_ok" "t_special io_ok" adult]
    by (simp add: pipeline_def env_without_baml_def io_ok_def elapsed_ms_def)
  from analyze_content_fresh [OF this]
  show ?thesis by (simp add: after_debate_def)
qed

section \<open>Properties of the engine\<close>



text \<open>
  C8, as stated, fails on the error path: the result synthesized by the \<^verbatim>\<open>except\<close> branch
  has the metadata \<^verbatim>\<open>{"error": str(e)}\<close> and neither engine key. An engine with the
  LLM-only strategy and no BAML client is the example.
\<close>

theorem error_path_lacks_engine_metadata:
  "curate_content env_without_baml io_ok (create_engine LLM_ONLY) ''hello'' adult
     = (Inr 0, after_failed_curate)
   \<and> strategy_used (heap (strategy after_failed_curate) ! 0) = ''error_handling''
   \<and> metadata (heap (strategy after_failed_curate) ! 0)
       = Some [''error'' \<mapsto> MStr ''LLM-Only Strategy requires BAML but it's not available'']
   \<and> or_empty (metadata (heap (strategy after_failed_curate) ! 0)) ''engine_strategy'' = None
   \<and> or_empty (metadata (heap (strategy after_failed_curate) ! 0))
        ''total_processing_time_ms'' = None"
proof -
  have "curate_content env_without_baml io_ok (create_engine LLM_ONLY) ''hello'' adult
     = (Inr 0, (create_engine LLM_ONLY)\<lparr>strategy :=
          init_state\<lparr>heap := [error_result (t_engine io_ok)
             (ValueError ''LLM-Only Strategy requires BAML but it's not available'')]\<rparr>\<rparr>)"
    by (simp add: curate_content_def create_engine_def llm_only_without_baml alloc_eq
        init_state_def)
  then show ?thesis
    by (simp add: after_failed_curate_def error_result_def or_empty_def)
qed

text \<open>
  C8, amended. On the success path the returned result carries the metadata keys
  \<^verbatim>\<open>engine_strategy\<close> and \<^verbatim>\<open>total_processing_time_ms\<close> with the engine's values, every
  other key the strategy had set keeps its value, and no key is lost. On the error path
  the returned result's metadata is the single key \<^verbatim>\<open>error\<close> with the message.
\<close>

theorem engine_metadata_stamp:
  assumes "cache_ok (strategy g)"
  shows "(\<forall>a s'. strategy_analyze_content e w (strategy_type g) (strategy g) content uc
                   = (Inr a, s') \<longrightarrow>
           (\<exists>g' m. curate_content e w g content uc = (Inr a, g')
              \<and> metadata (heap (strategy g') ! a) = Some m
              \<and> m ''engine_strategy'' = Some (MStr (strategy_value (strategy_type g)))
              \<and> m ''total_processing_time_ms'' = Some (MInt (py_int (elapsed_ms (t_engine w))))
              \<and> (\<forall>k. k \<noteq> ''engine_strategy'' \<and> k \<noteq> ''total_processing_time_ms'' \<longrightarrow>
                     m k = or_empty (metadata (heap s' ! a)) k)
              \<and> dom (or_empty (metadata (heap s' ! a))) \<subseteq> dom m))
       \<and> (\<forall>err s'. strategy_analyze_content e w (strategy_type g) (strategy g) content uc
                   = (Inl err, s') \<longrightarrow>
           (\<exists>a g'. curate_content e w g content uc = (Inr a, g')
              \<and> metadata (heap (strategy g') ! a) = Some [''error'' \<mapsto> MStr (message err)]))"
proof (intro conjI allI impI)
  fix a s'
  assume st: "strategy_analyze_content e w (strategy_type g) (strategy g) content uc = (Inr a, s')"
  have lt: "a < length (heap s')" using strategy_ref_valid [OF assms st] .
  show "\<exists>g' m. curate_content e w g content uc = (Inr a, g')
              \<and> metadata (heap (strategy g') ! a) = Some m
              \<and> m ''engine_strategy'' = Some (MStr (strategy_value (strategy_type g)))
              \<and> m ''total_processing_time_ms'' = Some (MInt (py_int (elapsed_ms (t_engine w))))
              \<and> (\<forall>k. k \<noteq> ''engine_strategy'' \<and> k \<noteq> ''total_processing_time_ms'' \<longrightarrow>
                     m k = or_empty (metadata (heap s' ! a)) k)
              \<and> dom (or_empty (metadata (heap s' ! a))) \<subseteq> dom m"
    using st lt by (auto simp: curate_content_def add_engine_metadata_def)
next
  fix err s'
  assume st: "strategy_analyze_content e w (strategy_type g) (strategy g) content uc = (Inl err, s')"
  show "\<exists>a g'. curate_content e w g content uc = (Inr a, g')
              \<and> metadata (heap (strategy g') ! a) = Some [''error'' \<mapsto> MStr (message err)]"
    using st by (simp add: curate_content_def alloc_eq error_result_def)
qed

theorem engine_metadata_stamp_witness:
  "cache_ok (strategy (create_engine MULTI_LAYER))
   \<and> strategy_analyze_content env_without_baml io_ok (strategy_type (create_engine MULTI_LAYER))
         (strategy (create_engine MULTI_LAYER)) ''Just had a great lunch today'' adult
       = (Inr 0, snd (analyze_content env_without_baml io_ok init_state
                        ''Just had a great lunch today'' adult))
   \<and> (\<exists>g' m. curate_content env_without_baml io_ok (create_engine MULTI_LAYER)
                  ''Just had a great lunch today'' adult = (Inr 0, g')
          \<and> metadata (heap (strategy g') ! 0) = Some m
          \<and> m ''engine_strategy'' = Some (MStr ''multi_layer'')
          \<and> m ''total_processing_time_ms'' = Some (MInt (py_int (elapsed_ms (t_engine io_ok)))))
   \<and> strategy_analyze_content env_without_baml io_ok (strategy_type (create_engine LLM_ONLY))
         (strategy (create_engine LLM_ONLY)) ''hello'' adult
       = (Inl (ValueError ''LLM-Only Strategy requires BAML but it's not available''), init_state)
   \<and> (\<exists>a g'. curate_content env_without_baml io_ok (create_engine LLM_ONLY) ''hello'' adult
                 = (Inr a, g')
          \<and> metadata (heap (strategy g') ! a)
              = Some [''error'' \<mapsto>
                        MStr ''LLM-Only Strategy requires BAML but it's not available''])"
proof -
  let ?c = "''Just had a great lunch today''"
  let ?g = "create_engine MULTI_LAYER"
  let ?s1 = "snd (analyze_content env_without_baml io_ok init_state ?c adult)"
  let ?h = "create_engine LLM_ONLY"
  let ?err = "ValueError ''LLM-Only Strategy requires BAML but it's not available''"
  have ok: "cache_ok (strategy ?g)" and ok': "cache_ok (strategy ?h)"
    by (simp_all add: create_engine_def cache_ok_init)
  have st: "strategy_analyze_content env_without_baml io_ok (strategy_type ?g) (strategy ?g)
              ?c adult = (Inr 0, ?s1)"
    using lunch_first_call [of env_without_baml io_ok]
    by (simp add: create_engine_def strategy_analyze_content_def prod_eq_iff)
  have er: "strategy_analyze_content env_without_baml io_ok (strategy_type ?h) (strategy ?h)
              ''hello'' adult = (Inl ?err, init_state)"
    by (simp add: create_engine_def llm_only_without_baml)
  note t1 = engine_metadata_stamp [OF ok, of env_without_baml io_ok ?c adult]
  note t2 = engine_metadata_stamp [OF ok', of env_without_baml io_ok "''hello''" adult]
  from t1 [THEN conjunct1, rule_format, OF st] have r1:
    "\<exists>g' m. curate_content env_without_baml io_ok ?g ?c adult = (Inr 0, g')
          \<and> metadata (heap (strategy g') ! 0) = Some m
          \<and> m ''engine_strategy'' = Some (MStr ''multi_layer'')
          \<and> m ''total_processing_time_ms'' = Some (MInt (py_int (elapsed_ms (t_engine io_ok))))"
    by (auto simp: create_engine_def)
  from t2 [THEN conjunct2, rule_format, OF er] have r2:
    "\<exists>a g'. curate_content env_without_baml io_ok ?h ''hello'' adult = (Inr a, g')
          \<and> metadata (heap (strategy g') ! a) = Some [''error'' \<mapsto>
                        MStr ''LLM-Only Strategy requires BAML but it's not available'']"
    by simp
  from ok st r1 er r2 show ?thesis by blast
qed

section \<open>Properties of the hybrid strategy\<close>



end
